theory Spec2Isabelle
  imports Complex_Main "HOL-Library.AList"
begin

section \<open>Data model\<close>

text \<open>
  The three zustand stores of the repository (WalletStore, GameStore, UserStore) are
  embedded as records; each store action becomes a function from the store (or from the
  world made of the three stores) to the updated one.

  Conventions of the embedding:
  \<^item> a JavaScript \<^verbatim>\<open>number\<close> is an exact rational. This is an idealisation of
    the IEEE doubles of the code: rounding, NaN and the infinities are outside the
    model, and a division is only meaningful where the divisor is not zero. A lemma that
    quantifies over amounts therefore speaks of exact arithmetic. The evaluations that
    settle a property of the code use the values of the scenario below (100, 40, 70,
    the pot 80, the fee 4, the winnings 76, the win rates 0.8, 0.5 and 100), on which
    the double arithmetic of the code yields the same values;
  \<^item> a \<^verbatim>\<open>Date\<close> is a number of milliseconds, an \<open>int\<close>; the clock read by
    \<^verbatim>\<open>Date.now()\<close> and \<^verbatim>\<open>new Date()\<close> is the argument \<open>now\<close> of an action;
  \<^item> every \<^verbatim>\<open>uuid.v4()\<close> of an action is an argument of the function
    (\<open>transactionId\<close>, \<open>walletId\<close>, \<open>newMatchId\<close>, \<open>newUserId\<close>);
  \<^item> a \<^verbatim>\<open>Record<string, T>\<close> is a map \<open>string \<rightharpoonup> T\<close>, except \<open>users\<close>, whose
    enumeration order is observable through \<^verbatim>\<open>Object.entries\<close>: it is an association
    list in insertion order (the order of \<^verbatim>\<open>Object.entries\<close> for keys that are not
    array indices, as the uuid keys are);
  \<^item> the wallet actions never throw: they record a message in the \<open>error\<close> field of the
    store; the game actions throw, which is the result \<open>Inl message\<close>;
  \<^item> \<^verbatim>\<open>saveString\<close> (persistence) always succeeds and has no effect on the stores;
  \<^item> the \<open>description\<close> text of a transaction is not part of the model.
\<close>

type_synonym number = rat

record wallet =
  w_id :: string
  w_userId :: string
  balance :: number
  lastUpdated :: int
  lockedBalance :: number

datatype transaction_type = Deposit | Withdrawal | Bet | Win

datatype transaction_status = Pending | Completed | Failed

record transaction =
  tx_id :: string
  tx_userId :: string
  tx_amount :: number
  tx_type :: transaction_type
  tx_status :: transaction_status
  tx_timestamp :: int
  tx_matchId :: "string option"

record escrow_holding =
  e_matchId :: string
  e_amount :: number
  e_player1Id :: string
  e_player2Id :: string
  e_timestamp :: int

record game_match =
  m_id :: string
  status :: string
  winner :: string
  endedAt :: int
  createdAt :: int
  player1Id :: string
  player2Id :: string
  startedAt :: int
  stakeAmount :: number
  player1Score :: number
  player2Score :: number

record wallet_store =
  ws_error :: "string option"
  wallets :: "string \<rightharpoonup> wallet"
  ws_isLoading :: bool
  pendingTransactions :: "string \<rightharpoonup> transaction"
  escrowHoldings :: "string \<rightharpoonup> escrow_holding"
  transactionHistory :: "string \<rightharpoonup> transaction"

section \<open>WalletStore\<close>

definition PLATFORM_FEE_PERCENTAGE :: number where
  "PLATFORM_FEE_PERCENTAGE = 5 / 100"

definition wallet_initialState :: wallet_store where
  "wallet_initialState =
     \<lparr>ws_error = None, wallets = Map.empty, ws_isLoading = False,
      pendingTransactions = Map.empty, escrowHoldings = Map.empty,
      transactionHistory = Map.empty\<rparr>"

text \<open>
  \<^verbatim>\<open>deposit\<close>: the guard \<^verbatim>\<open>amount <= 0\<close> returns early with the error set; otherwise
  the wallet is created when absent, the pending transaction is stored, the balance is
  raised and the completed transaction is written to the history.
\<close>

definition deposit ::
  "wallet_store \<Rightarrow> string \<Rightarrow> number \<Rightarrow> string \<Rightarrow> string \<Rightarrow> int \<Rightarrow> wallet_store" where
  "deposit s userId amount transactionId walletId now =
     (if amount \<le> 0 then s\<lparr>ws_error := Some ''Invalid deposit amount''\<rparr>
      else
        let tx = \<lparr>tx_id = transactionId, tx_userId = userId, tx_amount = amount,
                  tx_type = Deposit, tx_status = Pending, tx_timestamp = now,
                  tx_matchId = None\<rparr>;
            w = (case wallets s userId of
                   None \<Rightarrow> \<lparr>w_id = walletId, w_userId = userId, balance = 0,
                            lastUpdated = now, lockedBalance = 0\<rparr>
                 | Some w0 \<Rightarrow> w0)
        in s\<lparr>ws_error := None,
             wallets := (wallets s)(userId \<mapsto> w\<lparr>balance := balance w + amount, lastUpdated := now\<rparr>),
             ws_isLoading := False,
             pendingTransactions := (pendingTransactions s)(transactionId \<mapsto> tx),
             transactionHistory :=
               (transactionHistory s)(transactionId \<mapsto> tx\<lparr>tx_status := Completed\<rparr>)\<rparr>)"

text \<open>
  \<^verbatim>\<open>placeBet\<close> reads the match from \<^verbatim>\<open>useGameStore.getState().activeMatches\<close>, the
  first argument here. The funds guard returns early; a missing match is thrown inside
  the \<^verbatim>\<open>try\<close> block, caught, and recorded as the error, with no change to wallets,
  escrow or history. The escrow holding of the match is (over)written with the amount of
  this bet.
\<close>

definition placeBet ::
  "(string \<rightharpoonup> game_match) \<Rightarrow> wallet_store \<Rightarrow> string \<Rightarrow> string \<Rightarrow> number \<Rightarrow> string \<Rightarrow> int
     \<Rightarrow> wallet_store" where
  "placeBet activeMatchesOfGame s userId matchId amount transactionId now =
     (case wallets s userId of
        None \<Rightarrow> s\<lparr>ws_error := Some ''Insufficient funds''\<rparr>
      | Some w \<Rightarrow>
          if balance w - lockedBalance w < amount
          then s\<lparr>ws_error := Some ''Insufficient funds''\<rparr>
          else
            (case activeMatchesOfGame matchId of
               None \<Rightarrow> s\<lparr>ws_error := Some ''Match not found'', ws_isLoading := False\<rparr>
             | Some m \<Rightarrow>
                 s\<lparr>ws_error := None,
                   wallets := (wallets s)(userId \<mapsto> w\<lparr>lockedBalance := lockedBalance w + amount\<rparr>),
                   ws_isLoading := False,
                   escrowHoldings := (escrowHoldings s)(matchId \<mapsto>
                     \<lparr>e_matchId = matchId, e_amount = amount, e_player1Id = player1Id m,
                      e_player2Id = player2Id m, e_timestamp = now\<rparr>),
                   transactionHistory := (transactionHistory s)(transactionId \<mapsto>
                     \<lparr>tx_id = transactionId, tx_userId = userId, tx_amount = amount,
                      tx_type = Bet, tx_status = Completed, tx_timestamp = now,
                      tx_matchId = Some matchId\<rparr>)\<rparr>))"

definition withdraw ::
  "wallet_store \<Rightarrow> string \<Rightarrow> number \<Rightarrow> string \<Rightarrow> int \<Rightarrow> wallet_store" where
  "withdraw s userId amount transactionId now =
     (case wallets s userId of
        None \<Rightarrow> s\<lparr>ws_error := Some ''Insufficient available balance''\<rparr>
      | Some w \<Rightarrow>
          if balance w - lockedBalance w < amount
          then s\<lparr>ws_error := Some ''Insufficient available balance''\<rparr>
          else
            s\<lparr>ws_error := None,
              wallets := (wallets s)(userId \<mapsto> w\<lparr>balance := balance w - amount, lastUpdated := now\<rparr>),
              ws_isLoading := False,
              transactionHistory := (transactionHistory s)(transactionId \<mapsto>
                \<lparr>tx_id = transactionId, tx_userId = userId, tx_amount = amount,
                 tx_type = Withdrawal, tx_status = Completed, tx_timestamp = now,
                 tx_matchId = None\<rparr>)\<rparr>)"

text \<open>
  \<^verbatim>\<open>processPayout\<close>. The recipe given to \<^verbatim>\<open>produce\<close> dereferences
  \<^verbatim>\<open>state.wallets[winnerId]\<close> and \<^verbatim>\<open>state.wallets[loserId]\<close>; when one of them is
  undefined the recipe throws a TypeError, the draft is dropped, and the \<^verbatim>\<open>catch\<close>
  block stores the message of the error (written \<open>''TypeError''\<close> here: its text is the
  engine's). \<open>modify_wallet\<close> is one statement \<^verbatim>\<open>state.wallets[id].field op= v\<close>:
  \<open>None\<close> when the wallet is undefined. The three statements run in the order of the
  source, so that they compose when winner and loser are the same wallet.
\<close>

definition modify_wallet ::
  "string \<Rightarrow> (wallet \<Rightarrow> wallet) \<Rightarrow> (string \<rightharpoonup> wallet) \<Rightarrow> (string \<rightharpoonup> wallet) option" where
  "modify_wallet userId f ws =
     (case ws userId of None \<Rightarrow> None | Some w \<Rightarrow> Some (ws(userId \<mapsto> f w)))"

definition processPayout ::
  "wallet_store \<Rightarrow> string \<Rightarrow> string \<Rightarrow> string \<Rightarrow> int \<Rightarrow> wallet_store" where
  "processPayout s matchId winnerId transactionId now =
     (case escrowHoldings s matchId of
        None \<Rightarrow> s\<lparr>ws_error := Some ''No escrow found for this match''\<rparr>
      | Some escrow \<Rightarrow>
          let totalPot = e_amount escrow * 2;
              platformFee = totalPot * PLATFORM_FEE_PERCENTAGE;
              winningAmount = totalPot - platformFee;
              loserId = (if e_player1Id escrow = winnerId then e_player2Id escrow
                         else e_player1Id escrow)
          in
            (case Option.bind (Option.bind
                    (modify_wallet winnerId
                       (\<lambda>w. w\<lparr>lockedBalance := lockedBalance w - e_amount escrow\<rparr>) (wallets s))
                    (modify_wallet loserId
                       (\<lambda>w. w\<lparr>lockedBalance := lockedBalance w - e_amount escrow\<rparr>)))
                    (modify_wallet winnerId
                       (\<lambda>w. w\<lparr>balance := balance w + winningAmount, lastUpdated := now\<rparr>)) of
               None \<Rightarrow> s\<lparr>ws_error := Some ''TypeError'', ws_isLoading := False\<rparr>
             | Some ws' \<Rightarrow>
                 s\<lparr>ws_error := None,
                   wallets := ws',
                   ws_isLoading := False,
                   escrowHoldings := (escrowHoldings s)(matchId := None),
                   transactionHistory := (transactionHistory s)(transactionId \<mapsto>
                     \<lparr>tx_id = transactionId, tx_userId = winnerId,
                      tx_amount = winningAmount, tx_type = Win,
                      tx_status = Completed, tx_timestamp = now,
                      tx_matchId = Some matchId\<rparr>)\<rparr>))"

definition getWalletBalance :: "wallet_store \<Rightarrow> string \<Rightarrow> number" where
  "getWalletBalance s userId = (case wallets s userId of None \<Rightarrow> 0 | Some w \<Rightarrow> balance w)"

definition getLockedBalance :: "wallet_store \<Rightarrow> string \<Rightarrow> number" where
  "getLockedBalance s userId = (case wallets s userId of None \<Rightarrow> 0 | Some w \<Rightarrow> lockedBalance w)"

definition clearError :: "wallet_store \<Rightarrow> wallet_store" where
  "clearError s = s\<lparr>ws_error := None\<rparr>"

section \<open>UserStore\<close>

record user =
  u_id :: string
  wins :: number
  email :: string
  losses :: number
  username :: string
  u_createdAt :: int
  lastActive :: int
  reputation :: number
  totalMatches :: number

record user_stats =
  st_rank :: number
  winRate :: number
  avgStake :: number

record user_preferences =
  notifications :: bool
  theme :: string
  soundEnabled :: bool

record leaderboard_entry =
  lb_userId :: string
  lb_rank :: number
  lb_winRate :: number

record user_store =
  us_error :: "string option"
  users :: "(string \<times> user) list"
  us_isLoading :: bool
  userStats :: "string \<rightharpoonup> user_stats"
  currentUser :: "user option"
  us_lastUpdated :: "int option"
  userPreferences :: "string \<rightharpoonup> user_preferences"
  us_matchHistory :: "string \<rightharpoonup> string list"
  cachedLeaderboard :: "leaderboard_entry list option"
  cachedLeaderboardExpiry :: "int option"

definition user_initialState :: user_store where
  "user_initialState =
     \<lparr>us_error = None, users = [], us_isLoading = False, userStats = Map.empty,
      currentUser = None, us_lastUpdated = None, userPreferences = Map.empty,
      us_matchHistory = Map.empty, cachedLeaderboard = None,
      cachedLeaderboardExpiry = None\<rparr>"

definition LEADERBOARD_CACHE_DURATION :: int where
  "LEADERBOARD_CACHE_DURATION = 5 * 60 * 1000"

text \<open>
  \<^verbatim>\<open>updateStats\<close>: a no-op for an unknown user. The counters are raised first; the
  win rate and the average stake are then computed from the raised counters.
\<close>

definition updateStats :: "user_store \<Rightarrow> string \<Rightarrow> bool \<Rightarrow> number \<Rightarrow> int \<Rightarrow> user_store" where
  "updateStats s userId won stake now =
     (case map_of (users s) userId of
        None \<Rightarrow> s
      | Some u0 \<Rightarrow>
          let u = u0\<lparr>wins := wins u0 + (if won then 1 else 0),
                    losses := losses u0 + (if won then 0 else 1),
                    totalMatches := totalMatches u0 + 1\<rparr>;
              stats = (case userStats s userId of
                         None \<Rightarrow> \<lparr>st_rank = 0, winRate = 0, avgStake = 0\<rparr>
                       | Some st \<Rightarrow> st);
              stats' = stats\<lparr>winRate := (wins u / totalMatches u) * 100,
                             avgStake := (avgStake stats * (totalMatches u - 1) + stake)
                                           / totalMatches u\<rparr>
          in s\<lparr>users := AList.update userId u (users s),
               userStats := (userStats s)(userId \<mapsto> stats'),
               us_lastUpdated := Some now\<rparr>)"

text \<open>
  \<^verbatim>\<open>fetchLeaderboard\<close>. \<^verbatim>\<open>Array.prototype.sort\<close> is stable and is called with the
  comparator \<^verbatim>\<open>(a, b) => b.winRate - a.winRate\<close>, which puts \<open>a\<close> before \<open>b\<close> exactly
  when the win rate of \<open>a\<close> is larger: the stable insertion sort \<open>sort_key\<close> on the
  negated win rate. An empty array and a \<^verbatim>\<open>Date\<close> are truthy, so the cache is served
  when both fields are set and the expiry is later than \<open>now\<close>.
\<close>

definition cache_valid :: "user_store \<Rightarrow> int \<Rightarrow> bool" where
  "cache_valid s now =
     (case cachedLeaderboard s of
        None \<Rightarrow> False
      | Some lb \<Rightarrow> (case cachedLeaderboardExpiry s of None \<Rightarrow> False | Some e \<Rightarrow> now < e))"

definition leaderboard_entries :: "user_store \<Rightarrow> leaderboard_entry list" where
  "leaderboard_entries s =
     map (\<lambda>(userId, u).
            \<lparr>lb_userId = userId,
             lb_rank = (case userStats s userId of None \<Rightarrow> 0 | Some st \<Rightarrow> st_rank st),
             lb_winRate = (case userStats s userId of None \<Rightarrow> 0 | Some st \<Rightarrow> winRate st)\<rparr>)
         (users s)"

definition assign_ranks :: "leaderboard_entry list \<Rightarrow> leaderboard_entry list" where
  "assign_ranks es = map (\<lambda>(index, entry). entry\<lparr>lb_rank := of_nat index + 1\<rparr>) (enumerate 0 es)"

definition compute_leaderboard :: "user_store \<Rightarrow> leaderboard_entry list" where
  "compute_leaderboard s =
     assign_ranks (sort_key (\<lambda>e. - lb_winRate e) (leaderboard_entries s))"

definition fetchLeaderboard :: "user_store \<Rightarrow> int \<Rightarrow> leaderboard_entry list \<times> user_store" where
  "fetchLeaderboard s now =
     (if cache_valid s now then (the (cachedLeaderboard s), s)
      else
        let leaderboard = compute_leaderboard s
        in (leaderboard,
            s\<lparr>cachedLeaderboard := Some leaderboard,
              cachedLeaderboardExpiry := Some (now + LEADERBOARD_CACHE_DURATION)\<rparr>))"

text \<open>
  \<^verbatim>\<open>initializeUser\<close>: the spread \<^verbatim>\<open>...userData\<close> comes last in the object literal and
  \<^verbatim>\<open>Omit<User, 'id'>\<close> has every field but the id, so the new user is \<open>userData\<close> with
  the fresh id. Assigning a new key to \<^verbatim>\<open>state.users\<close> appends it to the enumeration
  order; assigning an existing key keeps its place.
\<close>

definition initializeUser :: "user_store \<Rightarrow> user \<Rightarrow> string \<Rightarrow> int \<Rightarrow> string \<times> user_store" where
  "initializeUser s userData newUserId now =
     (newUserId,
      s\<lparr>users := AList.update newUserId (userData\<lparr>u_id := newUserId\<rparr>) (users s),
        userStats := (userStats s)(newUserId \<mapsto> \<lparr>st_rank = 0, winRate = 0, avgStake = 0\<rparr>),
        us_lastUpdated := Some now,
        userPreferences := (userPreferences s)(newUserId \<mapsto>
          \<lparr>notifications = True, theme = ''light'', soundEnabled = True\<rparr>),
        us_matchHistory := (us_matchHistory s)(newUserId \<mapsto> [])\<rparr>)"

definition addMatchToHistory :: "user_store \<Rightarrow> string \<Rightarrow> string \<Rightarrow> user_store" where
  "addMatchToHistory s userId matchId =
     s\<lparr>us_matchHistory := (us_matchHistory s)(userId \<mapsto>
         matchId # (case us_matchHistory s userId of None \<Rightarrow> [] | Some h \<Rightarrow> h))\<rparr>"

definition calculateRank :: "user_store \<Rightarrow> string \<Rightarrow> int" where
  "calculateRank s userId =
     (case userStats s userId of
        None \<Rightarrow> 0
      | Some stats \<Rightarrow> \<lfloor>(winRate stats * (6 / 10) + (avgStake stats / 100) * (4 / 10)) * 100\<rfloor>)"

definition setError :: "user_store \<Rightarrow> string option \<Rightarrow> user_store" where
  "setError s e = s\<lparr>us_error := e\<rparr>"

definition clearCache :: "user_store \<Rightarrow> user_store" where
  "clearCache s = s\<lparr>cachedLeaderboard := None, cachedLeaderboardExpiry := None\<rparr>"

section \<open>GameStore\<close>

record game_state =
  ballPosition :: "number \<times> number"
  player1Position :: number
  player2Position :: number
  scores :: "number \<times> number"
  lastUpdate :: int

record match_settings =
  ms_id :: string
  ms_matchId :: string
  maxScore :: number
  ballSpeed :: number
  paddleSize :: number
  ms_description :: string

record game_store =
  gs_error :: "string option"
  gs_isLoading :: bool
  gameStates :: "string \<rightharpoonup> game_state"
  activeMatches :: "string \<rightharpoonup> game_match"
  matchSettings :: "string \<rightharpoonup> match_settings"
  matchHistory :: "string \<rightharpoonup> game_match"
  pendingMatches :: "string \<rightharpoonup> game_match"
  playerReadyStatus :: "string \<rightharpoonup> string set"

definition game_initialState :: game_store where
  "game_initialState =
     \<lparr>gs_error = None, gs_isLoading = False, gameStates = Map.empty,
      activeMatches = Map.empty, matchSettings = Map.empty, matchHistory = Map.empty,
      pendingMatches = Map.empty, playerReadyStatus = Map.empty\<rparr>"

text \<open>
  The game actions reach the other stores through \<^verbatim>\<open>useWalletStore.getState()\<close>,
  \<^verbatim>\<open>useUserStore.getState()\<close> and \<^verbatim>\<open>useRootStore.getState().userId\<close>: the world is
  the three stores and the authenticated user id (RootStore is not part of the sources;
  only its \<open>userId\<close> is read, and an absent or empty id is falsy).
\<close>

record world =
  rootUserId :: "string option"
  gameStore :: game_store
  walletStore :: wallet_store
  userStore :: user_store

definition initial_world :: "string option \<Rightarrow> world" where
  "initial_world uid =
     \<lparr>rootUserId = uid, gameStore = game_initialState, walletStore = wallet_initialState,
      userStore = user_initialState\<rparr>"

text \<open>
  \<^verbatim>\<open>createMatch\<close>: both guards throw before any store is written. The new match is
  stored in \<open>pendingMatches\<close>, then \<^verbatim>\<open>placeBet\<close> runs against the updated game store.
  The argument \<open>matchData\<close> is an \<^verbatim>\<open>Omit<Match, 'id'>\<close>: its \<open>m_id\<close> is overwritten.
\<close>

definition createMatch ::
  "world \<Rightarrow> game_match \<Rightarrow> string \<Rightarrow> string \<Rightarrow> int \<Rightarrow> string + (string \<times> world)" where
  "createMatch w matchData newMatchId transactionId now =
     (case rootUserId w of
        None \<Rightarrow> Inl ''User not authenticated''
      | Some userId \<Rightarrow>
          if userId = [] then Inl ''User not authenticated''
          else
            (case wallets (walletStore w) userId of
               None \<Rightarrow> Inl ''Insufficient funds''
             | Some userWallet \<Rightarrow>
                 if balance userWallet < stakeAmount matchData then Inl ''Insufficient funds''
                 else
                   let g = (gameStore w)\<lparr>pendingMatches := (pendingMatches (gameStore w))(newMatchId \<mapsto>
                              matchData\<lparr>m_id := newMatchId, status := ''pending'', winner := [],
                                        endedAt := now, createdAt := now, startedAt := now,
                                        player1Score := 0, player2Score := 0\<rparr>)\<rparr>
                   in Inr (newMatchId,
                           w\<lparr>gameStore := g,
                             walletStore := placeBet (activeMatches g) (walletStore w) userId
                               newMatchId (stakeAmount matchData) transactionId now\<rparr>)))"

definition joinMatch ::
  "world \<Rightarrow> string \<Rightarrow> string \<Rightarrow> string \<Rightarrow> int \<Rightarrow> string + world" where
  "joinMatch w matchId playerId transactionId now =
     (case pendingMatches (gameStore w) matchId of
        None \<Rightarrow> Inl ''Match not found''
      | Some m \<Rightarrow>
          (case wallets (walletStore w) playerId of
             None \<Rightarrow> Inl ''Insufficient funds''
           | Some userWallet \<Rightarrow>
               if balance userWallet < stakeAmount m then Inl ''Insufficient funds''
               else
                 let g = (gameStore w)\<lparr>
                           activeMatches := (activeMatches (gameStore w))(matchId \<mapsto>
                             m\<lparr>player2Id := playerId, status := ''active'', startedAt := now\<rparr>),
                           pendingMatches := (pendingMatches (gameStore w))(matchId := None),
                           playerReadyStatus := (playerReadyStatus (gameStore w))(matchId \<mapsto> {})\<rparr>
                 in Inr (w\<lparr>gameStore := g,
                           walletStore := placeBet (activeMatches g) (walletStore w) playerId
                             matchId (stakeAmount m) transactionId now\<rparr>)))"

text \<open>
  \<^verbatim>\<open>endMatch\<close>: the match is read from \<open>activeMatches\<close> only. The three calls under
  \<^verbatim>\<open>Promise.all\<close> write their stores before their first \<^verbatim>\<open>await\<close>, in the order
  they are listed; the payout writes the wallet store, the two stats updates the user store.
\<close>

definition endMatch ::
  "world \<Rightarrow> string \<Rightarrow> string \<Rightarrow> string \<Rightarrow> int \<Rightarrow> string + world" where
  "endMatch w matchId winnerId transactionId now =
     (case activeMatches (gameStore w) matchId of
        None \<Rightarrow> Inl ''Match not found''
      | Some m \<Rightarrow>
          Inr (w\<lparr>gameStore := (gameStore w)\<lparr>
                   gameStates := (gameStates (gameStore w))(matchId := None),
                   activeMatches := (activeMatches (gameStore w))(matchId := None),
                   matchHistory := (matchHistory (gameStore w))(matchId \<mapsto>
                     m\<lparr>status := ''completed'', winner := winnerId, endedAt := now\<rparr>)\<rparr>,
                 walletStore := processPayout (walletStore w) matchId winnerId transactionId now,
                 userStore :=
                   updateStats
                     (updateStats (userStore w) winnerId True (stakeAmount m) now)
                     (if winnerId = player1Id m then player2Id m else player1Id m)
                     False (stakeAmount m) now\<rparr>))"

definition forfeitMatch ::
  "world \<Rightarrow> string \<Rightarrow> string \<Rightarrow> string \<Rightarrow> int \<Rightarrow> string + world" where
  "forfeitMatch w matchId forfeitingPlayerId transactionId now =
     (case activeMatches (gameStore w) matchId of
        None \<Rightarrow> Inl ''Match not found''
      | Some m \<Rightarrow>
          endMatch w matchId
            (if player1Id m = forfeitingPlayerId then player2Id m else player1Id m)
            transactionId now)"

definition leaveMatch :: "world \<Rightarrow> string \<Rightarrow> string \<Rightarrow> world" where
  "leaveMatch w matchId playerId =
     w\<lparr>gameStore := (gameStore w)\<lparr>
         gameStates := (gameStates (gameStore w))(matchId := None),
         activeMatches := (activeMatches (gameStore w))(matchId := None),
         playerReadyStatus := (playerReadyStatus (gameStore w))(matchId := None)\<rparr>\<rparr>"

definition resetMatch :: "game_store \<Rightarrow> string \<Rightarrow> int \<Rightarrow> game_store" where
  "resetMatch g matchId now =
     (case gameStates g matchId of
        None \<Rightarrow> g
      | Some gs \<Rightarrow>
          g\<lparr>gameStates := (gameStates g)(matchId \<mapsto>
              \<lparr>ballPosition = (1 / 2, 1 / 2), player1Position = 1 / 2,
               player2Position = 1 / 2, scores = (0, 0), lastUpdate = now\<rparr>)\<rparr>)"

section \<open>Observations and sequences of actions\<close>

text \<open>
  The balance invariant of a wallet, and the ledger actions as data, so that a property
  of every sequence of ledger actions can be stated. The ledger runs from the empty
  wallet store; the active matches of the game store, which \<open>placeBet\<close> reads, are a
  parameter of the run.
\<close>

definition wallet_invariant :: "wallet \<Rightarrow> bool" where
  "wallet_invariant w = (0 \<le> lockedBalance w \<and> lockedBalance w \<le> balance w)"

definition invariant_at :: "wallet_store \<Rightarrow> string \<Rightarrow> bool" where
  "invariant_at s userId =
     (case wallets s userId of None \<Rightarrow> True | Some w \<Rightarrow> wallet_invariant w)"

datatype ledger_op =
    OpDeposit string number string string int
  | OpWithdraw string number string int
  | OpPlaceBet string string number string int
  | OpProcessPayout string string string int

fun apply_ledger_op :: "(string \<rightharpoonup> game_match) \<Rightarrow> wallet_store \<Rightarrow> ledger_op \<Rightarrow> wallet_store" where
  "apply_ledger_op act s (OpDeposit userId amount transactionId walletId now) =
     deposit s userId amount transactionId walletId now"
| "apply_ledger_op act s (OpWithdraw userId amount transactionId now) =
     withdraw s userId amount transactionId now"
| "apply_ledger_op act s (OpPlaceBet userId matchId amount transactionId now) =
     placeBet act s userId matchId amount transactionId now"
| "apply_ledger_op act s (OpProcessPayout matchId winnerId transactionId now) =
     processPayout s matchId winnerId transactionId now"

definition run_ledger :: "(string \<rightharpoonup> game_match) \<Rightarrow> ledger_op list \<Rightarrow> wallet_store" where
  "run_ledger act ops = foldl (apply_ledger_op act) wallet_initialState ops"

text \<open>
  The actions of the user store that may come between two calls of
  \<open>fetchLeaderboard\<close>.
\<close>

datatype user_op =
    OpUpdateStats string bool number int
  | OpInitializeUser user string int
  | OpAddMatchToHistory string string
  | OpSetError "string option"
  | OpClearCache

fun apply_user_op :: "user_store \<Rightarrow> user_op \<Rightarrow> user_store" where
  "apply_user_op s (OpUpdateStats userId won stake now) = updateStats s userId won stake now"
| "apply_user_op s (OpInitializeUser userData newUserId now) =
     snd (initializeUser s userData newUserId now)"
| "apply_user_op s (OpAddMatchToHistory userId matchId) = addMatchToHistory s userId matchId"
| "apply_user_op s (OpSetError e) = setError s e"
| "apply_user_op s OpClearCache = clearCache s"

definition run_user_ops :: "user_store \<Rightarrow> user_op list \<Rightarrow> user_store" where
  "run_user_ops s ops = foldl apply_user_op s ops"

text \<open>Reading the stats and the counters of a user (0 for an unknown user).\<close>

definition winRateOf :: "user_store \<Rightarrow> string \<Rightarrow> number" where
  "winRateOf s userId = (case userStats s userId of None \<Rightarrow> 0 | Some st \<Rightarrow> winRate st)"

definition avgStakeOf :: "user_store \<Rightarrow> string \<Rightarrow> number" where
  "avgStakeOf s userId = (case userStats s userId of None \<Rightarrow> 0 | Some st \<Rightarrow> avgStake st)"

definition winsOf :: "user_store \<Rightarrow> string \<Rightarrow> number" where
  "winsOf s userId = (case map_of (users s) userId of None \<Rightarrow> 0 | Some u \<Rightarrow> wins u)"

definition lossesOf :: "user_store \<Rightarrow> string \<Rightarrow> number" where
  "lossesOf s userId = (case map_of (users s) userId of None \<Rightarrow> 0 | Some u \<Rightarrow> losses u)"

definition totalMatchesOf :: "user_store \<Rightarrow> string \<Rightarrow> number" where
  "totalMatchesOf s userId =
     (case map_of (users s) userId of None \<Rightarrow> 0 | Some u \<Rightarrow> totalMatches u)"

section \<open>A scenario\<close>

text \<open>
  Alice and Bob register and deposit 100 each; Alice, the authenticated user, creates
  the match \<open>m1\<close> with stake 40; Bob joins it; the match ends.
\<close>

definition ex_userData :: "string \<Rightarrow> user" where
  "ex_userData n =
     \<lparr>u_id = [], wins = 0, email = n @ ''@example.org'', losses = 0, username = n,
      u_createdAt = 0, lastActive = 0, reputation = 100, totalMatches = 0\<rparr>"

definition ex_users :: user_store where
  "ex_users =
     snd (initializeUser (snd (initializeUser user_initialState (ex_userData ''alice'') ''alice'' 0))
            (ex_userData ''bob'') ''bob'' 0)"

definition ex_funded_wallets :: wallet_store where
  "ex_funded_wallets =
     deposit (deposit wallet_initialState ''alice'' 100 ''t1'' ''wa'' 1) ''bob'' 100 ''t2'' ''wb'' 2"

definition ex_world_funded :: world where
  "ex_world_funded =
     (initial_world (Some ''alice''))\<lparr>walletStore := ex_funded_wallets, userStore := ex_users\<rparr>"

definition ex_matchData :: game_match where
  "ex_matchData =
     \<lparr>m_id = [], status = ''waiting'', winner = [], endedAt = 3, createdAt = 3,
      player1Id = ''alice'', player2Id = [], startedAt = 3, stakeAmount = 40,
      player1Score = 0, player2Score = 0\<rparr>"

definition ex_world_created :: world where
  "ex_world_created =
     (case createMatch ex_world_funded ex_matchData ''m1'' ''t3'' 3 of
        Inl e \<Rightarrow> ex_world_funded
      | Inr (matchId, w) \<Rightarrow> w)"

definition ex_world_joined :: world where
  "ex_world_joined =
     (case joinMatch ex_world_created ''m1'' ''bob'' ''t4'' 4 of
        Inl e \<Rightarrow> ex_world_created
      | Inr w \<Rightarrow> w)"

definition ex_world_ended :: world where
  "ex_world_ended =
     (case endMatch ex_world_joined ''m1'' ''alice'' ''t5'' 5 of
        Inl e \<Rightarrow> ex_world_joined
      | Inr w \<Rightarrow> w)"

text \<open>The game store with \<open>m1\<close> active, and the ledger after both players bet 40 on it.\<close>

definition ex_active :: "string \<rightharpoonup> game_match" where
  "ex_active =
     [''m1'' \<mapsto> ex_matchData\<lparr>m_id := ''m1'', status := ''active'', player2Id := ''bob''\<rparr>]"

definition ex_both_bet :: wallet_store where
  "ex_both_bet =
     placeBet ex_active (placeBet ex_active ex_funded_wallets ''alice'' ''m1'' 40 ''t3'' 3)
       ''bob'' ''m1'' 40 ''t4'' 4"

text \<open>The leaderboard of the users A, B, C, inserted in this order.\<close>

definition ex_leaderboard_store :: user_store where
  "ex_leaderboard_store =
     (snd (initializeUser (snd (initializeUser (snd (initializeUser user_initialState
        (ex_userData ''A'') ''A'' 0)) (ex_userData ''B'') ''B'' 0)) (ex_userData ''C'') ''C'' 0))
     \<lparr>userStats :=
        [''A'' \<mapsto> \<lparr>st_rank = 0, winRate = 8 / 10, avgStake = 0\<rparr>,
         ''B'' \<mapsto> \<lparr>st_rank = 0, winRate = 8 / 10, avgStake = 0\<rparr>,
         ''C'' \<mapsto> \<lparr>st_rank = 0, winRate = 5 / 10, avgStake = 0\<rparr>]\<rparr>"

text \<open>
  A second match, \<open>m2\<close> with stake 70, created by Alice after Bob has joined \<open>m1\<close>,
  and joined by Bob.
\<close>

definition ex_world_second :: world where
  "ex_world_second =
     (case createMatch ex_world_joined (ex_matchData\<lparr>stakeAmount := 70\<rparr>) ''m2'' ''t6'' 6 of
        Inl e \<Rightarrow> ex_world_joined
      | Inr (matchId, w) \<Rightarrow> w)"

definition ex_world_second_joined :: world where
  "ex_world_second_joined =
     (case joinMatch ex_world_second ''m2'' ''bob'' ''t7'' 7 of
        Inl e \<Rightarrow> ex_world_second
      | Inr w \<Rightarrow> w)"

text \<open>
  The users in insertion order with their win rates, and the entries of a leaderboard
  with theirs.
\<close>

definition user_rates :: "user_store \<Rightarrow> (string \<times> number) list" where
  "user_rates s = map (\<lambda>(userId, u). (userId, winRateOf s userId)) (users s)"

definition entry_rates :: "leaderboard_entry list \<Rightarrow> (string \<times> number) list" where
  "entry_rates lb = map (\<lambda>e. (lb_userId e, lb_winRate e)) lb"

section \<open>Evaluation of the scenario\<close>

lemmas ex_defs = ex_userData_def ex_users_def ex_funded_wallets_def ex_world_funded_def
  ex_matchData_def ex_world_created_def ex_world_joined_def ex_world_ended_def ex_active_def
  ex_both_bet_def ex_leaderboard_store_def ex_world_second_def ex_world_second_joined_def
  initial_world_def wallet_initialState_def user_initialState_def game_initialState_def

lemmas act_defs = deposit_def placeBet_def withdraw_def processPayout_def modify_wallet_def
  createMatch_def joinMatch_def endMatch_def forfeitMatch_def updateStats_def initializeUser_def
  Let_def PLATFORM_FEE_PERCENTAGE_def getLockedBalance_def getWalletBalance_def

section \<open>Ledger: bets and escrow\<close>

text \<open>
  On a match of \<open>activeMatches\<close>, a bet within the available funds succeeds: the locked
  balance grows by the amount, the escrow holding records the amount, and the completed
  \<open>Bet\<close> transaction is written.
\<close>

lemma placeBet_on_active_match:
  assumes "wallets s userId = Some w"
    and "amount \<le> balance w - lockedBalance w"
    and "act matchId = Some m"
  shows "ws_error (placeBet act s userId matchId amount transactionId now) = None \<and>
         getLockedBalance (placeBet act s userId matchId amount transactionId now) userId
           = getLockedBalance s userId + amount \<and>
         getWalletBalance (placeBet act s userId matchId amount transactionId now) userId
           = getWalletBalance s userId \<and>
         escrowHoldings (placeBet act s userId matchId amount transactionId now) matchId
           = Some \<lparr>e_matchId = matchId, e_amount = amount, e_player1Id = player1Id m,
                   e_player2Id = player2Id m, e_timestamp = now\<rparr> \<and>
         transactionHistory (placeBet act s userId matchId amount transactionId now) transactionId
           = Some \<lparr>tx_id = transactionId, tx_userId = userId, tx_amount = amount,
                   tx_type = Bet, tx_status = Completed, tx_timestamp = now,
                   tx_matchId = Some matchId\<rparr>"
  using assms by (simp add: placeBet_def getLockedBalance_def getWalletBalance_def)

text \<open>
  C1. The claim: for a user with sufficient available funds and an existing match, pending
  or active, \<open>placeBet\<close> succeeds, and after \<open>createMatch\<close> with stake 40 by a user
  with balance 100 the escrow of the new match exists with amount 40 and the creator's
  locked balance is 40.

  The code: \<open>placeBet\<close> looks the match up in \<open>activeMatches\<close> only, and
  \<open>createMatch\<close> stores the new match in \<open>pendingMatches\<close>. Evaluated on the scenario:
  Alice has balance 100 and nothing locked; \<open>createMatch\<close> returns the id \<open>m1\<close>, the
  match is pending, but no escrow holding exists, her locked balance is still 0 and the
  wallet store holds the error of the bet. A second \<open>placeBet\<close> on the pending match
  (as the match-creation screen issues) changes nothing either.
\<close>

theorem createMatch_escrows_nothing:
  "createMatch ex_world_funded ex_matchData ''m1'' ''t3'' 3 = Inr (''m1'', ex_world_created) \<and>
   getWalletBalance (walletStore ex_world_funded) ''alice'' = 100 \<and>
   getLockedBalance (walletStore ex_world_funded) ''alice'' = 0 \<and>
   pendingMatches (gameStore ex_world_created) ''m1'' \<noteq> None \<and>
   escrowHoldings (walletStore ex_world_created) ''m1'' = None \<and>
   getLockedBalance (walletStore ex_world_created) ''alice'' = 0 \<and>
   ws_error (walletStore ex_world_created) = Some ''Match not found'' \<and>
   placeBet (activeMatches (gameStore ex_world_created)) (walletStore ex_world_created)
     ''alice'' ''m1'' 40 ''t4'' 4 = walletStore ex_world_created"
  by (simp add: ex_defs act_defs)

section \<open>Ledger: payout\<close>

text \<open>
  What a payout does, in exact arithmetic, for an escrow holding of amount \<open>a\<close> whose
  two distinct players have wallets and a winner who is one of them: the locked balance of
  both players drops by \<open>a\<close>, the balance of the winner grows by the pot \<open>2 * a\<close> less
  the fee of 5 percent of the pot, the escrow holding is removed and a completed \<open>Win\<close>
  transaction is written for the winner.
\<close>

lemma processPayout_settles:
  assumes "escrowHoldings s matchId = Some escrow"
    and "wallets s (e_player1Id escrow) \<noteq> None"
    and "wallets s (e_player2Id escrow) \<noteq> None"
    and "e_player1Id escrow \<noteq> e_player2Id escrow"
    and "winnerId = e_player1Id escrow \<or> winnerId = e_player2Id escrow"
  shows "let s' = processPayout s matchId winnerId transactionId now;
             a = e_amount escrow
         in ws_error s' = None \<and>
            getLockedBalance s' (e_player1Id escrow) = getLockedBalance s (e_player1Id escrow) - a \<and>
            getLockedBalance s' (e_player2Id escrow) = getLockedBalance s (e_player2Id escrow) - a \<and>
            getWalletBalance s' winnerId
              = getWalletBalance s winnerId + (a * 2 - a * 2 * PLATFORM_FEE_PERCENTAGE) \<and>
            escrowHoldings s' matchId = None \<and>
            transactionHistory s' transactionId =
              Some \<lparr>tx_id = transactionId, tx_userId = winnerId,
                    tx_amount = a * 2 - a * 2 * PLATFORM_FEE_PERCENTAGE,
                    tx_type = Win, tx_status = Completed, tx_timestamp = now,
                    tx_matchId = Some matchId\<rparr>"
  using assms
  by (auto simp: processPayout_def Let_def modify_wallet_def getWalletBalance_def
        getLockedBalance_def)

text \<open>
  When both players of an active match have bet \<open>a\<close> within their available funds and
  the payout is processed for one of them, both locked balances are back at their value
  before the bets.
\<close>

lemma bets_then_payout_restore_locked:
  assumes "act matchId = Some m"
    and "player1Id m \<noteq> player2Id m"
    and "wallets s (player1Id m) = Some w1"
    and "wallets s (player2Id m) = Some w2"
    and "a \<le> balance w1 - lockedBalance w1"
    and "a \<le> balance w2 - lockedBalance w2"
    and "winnerId = player1Id m \<or> winnerId = player2Id m"
  shows "let s' = processPayout
                    (placeBet act (placeBet act s (player1Id m) matchId a t1 n1)
                       (player2Id m) matchId a t2 n2)
                    matchId winnerId t3 n3
         in getLockedBalance s' (player1Id m) = getLockedBalance s (player1Id m) \<and>
            getLockedBalance s' (player2Id m) = getLockedBalance s (player2Id m) \<and>
            escrowHoldings s' matchId = None"
  using assms
  by (auto simp: placeBet_def processPayout_def Let_def modify_wallet_def getLockedBalance_def)

text \<open>
  C2. The claim: for every match with an escrow holding of per-player amount \<open>a\<close>,
  \<open>processPayout\<close> lowers the locked balance of both players by exactly \<open>a\<close>,
  returning them to their values before the bets, credits the winnings to the winner,
  removes the escrow holding and writes the \<open>Win\<close> transaction.

  The code, on the match of the scenario. Before any bet Alice and Bob have nothing
  locked. Alice creates \<open>m1\<close> with stake 40 and Bob joins it: the escrow holding of
  \<open>m1\<close> has amount 40, Bob has 40 locked, and Alice still has nothing locked, since the
  bet of \<open>createMatch\<close> is refused (C1). The payout for Alice, the one \<open>endMatch\<close>
  makes, computes the pot 80, the fee 4 and the winnings 76, removes the escrow holding
  and credits Alice, but it leaves her locked balance at - 40, not at its value before the
  bet, 0.
\<close>

theorem payout_misses_prebet_lock:
  "getLockedBalance (walletStore ex_world_funded) ''alice'' = 0 \<and>
   getLockedBalance (walletStore ex_world_funded) ''bob'' = 0 \<and>
   escrowHoldings (walletStore ex_world_joined) ''m1''
     = Some \<lparr>e_matchId = ''m1'', e_amount = 40, e_player1Id = ''alice'', e_player2Id = ''bob'',
             e_timestamp = 4\<rparr> \<and>
   getLockedBalance (walletStore ex_world_joined) ''alice'' = 0 \<and>
   getLockedBalance (walletStore ex_world_joined) ''bob'' = 40 \<and>
   walletStore ex_world_ended = processPayout (walletStore ex_world_joined) ''m1'' ''alice'' ''t5'' 5 \<and>
   ws_error (processPayout (walletStore ex_world_joined) ''m1'' ''alice'' ''t5'' 5) = None \<and>
   escrowHoldings (processPayout (walletStore ex_world_joined) ''m1'' ''alice'' ''t5'' 5) ''m1'' = None \<and>
   getWalletBalance (processPayout (walletStore ex_world_joined) ''m1'' ''alice'' ''t5'' 5) ''alice'' = 176 \<and>
   getLockedBalance (processPayout (walletStore ex_world_joined) ''m1'' ''alice'' ''t5'' 5) ''bob'' = 0 \<and>
   getLockedBalance (processPayout (walletStore ex_world_joined) ''m1'' ''alice'' ''t5'' 5) ''alice'' = - 40"
  by (simp add: ex_defs act_defs)

lemma processPayout_success_clears_escrow:
  "ws_error (processPayout s matchId winnerId transactionId now) = None \<Longrightarrow>
   escrowHoldings (processPayout s matchId winnerId transactionId now) matchId = None"
  by (cases "escrowHoldings s matchId")
     (auto simp add: processPayout_def Let_def split: option.splits if_splits)

text \<open>
  C3. After a successful \<open>processPayout\<close> for a match id (one that ends with no error),
  a second call for the same match id, with any winner, finds no escrow holding: it
  stores the error \<open>No escrow found for this match\<close> and changes nothing else, so every
  balance and locked balance is as the first call left it.
\<close>

theorem processPayout_no_double_settlement:
  assumes "ws_error (processPayout s matchId winnerId transactionId now) = None"
  shows "processPayout (processPayout s matchId winnerId transactionId now)
           matchId winnerId' transactionId' now'
         = (processPayout s matchId winnerId transactionId now)
             \<lparr>ws_error := Some ''No escrow found for this match''\<rparr>"
  using processPayout_success_clears_escrow [OF assms]
  by (simp add: processPayout_def [of "processPayout s matchId winnerId transactionId now"])

theorem processPayout_no_double_settlement_witness:
  "ws_error (processPayout ex_both_bet ''m1'' ''alice'' ''t5'' 5) = None \<and>
   ws_error (processPayout (processPayout ex_both_bet ''m1'' ''alice'' ''t5'' 5) ''m1'' ''alice'' ''t6'' 6)
     = Some ''No escrow found for this match'' \<and>
   wallets (processPayout (processPayout ex_both_bet ''m1'' ''alice'' ''t5'' 5) ''m1'' ''alice'' ''t6'' 6)
     = wallets (processPayout ex_both_bet ''m1'' ''alice'' ''t5'' 5)"
proof -
  have ok: "ws_error (processPayout ex_both_bet ''m1'' ''alice'' ''t5'' 5) = None"
    by (simp add: ex_defs act_defs)
  from processPayout_no_double_settlement [OF ok, of "''alice''" "''t6''" 6] ok
  show ?thesis by simp
qed

section \<open>Ledger: the balance invariant\<close>

text \<open>
  C4. The claim: after every sequence of ledger actions from the empty wallet store,
  every wallet has \<open>0 \<le> lockedBalance \<le> balance\<close>.

  The code: \<open>processPayout\<close> lowers the locked balance of both players of the escrow
  holding by its amount, whether or not each of them has locked that amount. With the
  match \<open>m1\<close> of Alice and Bob active: both deposit 100, Bob bets 40, the payout is
  processed. Alice's locked balance is then - 40.
\<close>

theorem ledger_breaks_invariant:
  "getLockedBalance
     (run_ledger ex_active
        [OpDeposit ''alice'' 100 ''t1'' ''wa'' 1, OpDeposit ''bob'' 100 ''t2'' ''wb'' 2,
         OpPlaceBet ''bob'' ''m1'' 40 ''t4'' 4, OpProcessPayout ''m1'' ''bob'' ''t5'' 5])
     ''alice'' = - 40 \<and>
   \<not> invariant_at
     (run_ledger ex_active
        [OpDeposit ''alice'' 100 ''t1'' ''wa'' 1, OpDeposit ''bob'' 100 ''t2'' ''wb'' 2,
         OpPlaceBet ''bob'' ''m1'' 40 ''t4'' 4, OpProcessPayout ''m1'' ''bob'' ''t5'' 5])
     ''alice''"
  by (simp add: run_ledger_def invariant_at_def wallet_invariant_def ex_defs act_defs)

text \<open>
  The same happens through the game store: the bet of \<open>createMatch\<close> locks nothing,
  Bob's bet on joining creates the escrow holding, and \<open>endMatch\<close> releases 40 from both.
\<close>

lemma scenario_creator_locked_negative:
  "getLockedBalance (walletStore ex_world_ended) ''alice'' = - 40 \<and>
   getLockedBalance (walletStore ex_world_ended) ''bob'' = 0 \<and>
   \<not> invariant_at (walletStore ex_world_ended) ''alice''"
  by (simp add: invariant_at_def wallet_invariant_def ex_defs act_defs)

section \<open>Leaving a match\<close>

text \<open>
  C10. \<open>leaveMatch\<close> removes the match from the active matches, with its game state
  and its readiness record, and leaves the wallet store as it is: escrow holdings, locked
  balances and transactions are those of before.
\<close>

theorem leaveMatch_leaves_wallets:
  "walletStore (leaveMatch w matchId playerId) = walletStore w \<and>
   activeMatches (gameStore (leaveMatch w matchId playerId)) matchId = None \<and>
   gameStates (gameStore (leaveMatch w matchId playerId)) matchId = None \<and>
   playerReadyStatus (gameStore (leaveMatch w matchId playerId)) matchId = None"
  by (simp add: leaveMatch_def)

text \<open>
  In the scenario, Bob leaves the match he joined: his 40 stay locked, the escrow holding
  stays, and the match can no longer be ended.
\<close>

lemma leaveMatch_scenario:
  "getLockedBalance (walletStore (leaveMatch ex_world_joined ''m1'' ''bob'')) ''bob'' = 40 \<and>
   escrowHoldings (walletStore (leaveMatch ex_world_joined ''m1'' ''bob'')) ''m1'' \<noteq> None \<and>
   endMatch (leaveMatch ex_world_joined ''m1'' ''bob'') ''m1'' ''alice'' ''t5'' 5
     = Inl ''Match not found''"
  by (simp add: leaveMatch_def ex_defs act_defs)

section \<open>Match coordinator: the funds guards\<close>

text \<open>
  What the guards of \<open>createMatch\<close> and \<open>joinMatch\<close> test: the wallet is absent, or
  its total balance is below the stake.
\<close>

lemma createMatch_insufficient_iff:
  "(createMatch w matchData newMatchId transactionId now = Inl ''Insufficient funds'') =
   (\<exists>userId. rootUserId w = Some userId \<and> userId \<noteq> [] \<and>
      (case wallets (walletStore w) userId of
         None \<Rightarrow> True
       | Some userWallet \<Rightarrow> balance userWallet < stakeAmount matchData))"
  by (auto simp: createMatch_def Let_def split: option.splits)

lemma joinMatch_insufficient_iff:
  "(joinMatch w matchId playerId transactionId now = Inl ''Insufficient funds'') =
   (\<exists>m. pendingMatches (gameStore w) matchId = Some m \<and>
      (case wallets (walletStore w) playerId of
         None \<Rightarrow> True
       | Some userWallet \<Rightarrow> balance userWallet < stakeAmount m))"
  by (auto simp: joinMatch_def Let_def split: option.splits)

text \<open>
  C5. The claim: \<open>createMatch\<close> and \<open>joinMatch\<close> fail with insufficient funds exactly
  when the available balance, \<open>balance - lockedBalance\<close>, is below the stake; a user
  whose total balance covers the stake but whose available balance does not can neither
  create nor join a match.

  The code compares the total balance. In the scenario Bob has balance 100 with 40
  locked in \<open>m1\<close>, so 60 available. With stake 70 he creates a match, and he joins
  Alice's pending match \<open>m2\<close>: it becomes active, while the bet made on his behalf is
  refused by the guard of \<open>placeBet\<close>, which does subtract the locked balance; no
  escrow holding exists for \<open>m2\<close>.
\<close>

theorem guards_ignore_locked_funds:
  "getWalletBalance (walletStore ex_world_joined) ''bob'' = 100 \<and>
   getLockedBalance (walletStore ex_world_joined) ''bob'' = 40 \<and>
   \<not> isl (createMatch (ex_world_joined\<lparr>rootUserId := Some ''bob''\<rparr>)
            (ex_matchData\<lparr>player1Id := ''bob'', stakeAmount := 70\<rparr>) ''m2'' ''t6'' 6) \<and>
   getWalletBalance (walletStore ex_world_second) ''bob'' = 100 \<and>
   getLockedBalance (walletStore ex_world_second) ''bob'' = 40 \<and>
   map_option stakeAmount (pendingMatches (gameStore ex_world_second) ''m2'') = Some 70 \<and>
   joinMatch ex_world_second ''m2'' ''bob'' ''t7'' 7 = Inr ex_world_second_joined \<and>
   map_option status (activeMatches (gameStore ex_world_second_joined) ''m2'') = Some ''active'' \<and>
   escrowHoldings (walletStore ex_world_second_joined) ''m2'' = None \<and>
   getLockedBalance (walletStore ex_world_second_joined) ''bob'' = 40 \<and>
   ws_error (walletStore ex_world_second_joined) = Some ''Insufficient funds''"
  by (simp add: ex_defs act_defs)

section \<open>Identity and stats\<close>

text \<open>
  What \<open>updateStats\<close> writes, in exact arithmetic, for a known user whose
  \<open>totalMatches\<close> is not - 1 (so that the new count \<open>n\<close> is not zero): \<open>wins\<close> grows
  by 1 if won and \<open>losses\<close> by 1 otherwise, \<open>totalMatches\<close> grows by 1, the average
  stake becomes \<open>(avgStake_old * (n - 1) + stake) / n\<close> (the old average is 0 for a user
  without a stats record), and the stored win rate is \<open>(wins / n) * 100\<close>.
\<close>

lemma updateStats_recomputes:
  assumes "map_of (users s) userId = Some u"
    and "totalMatches u \<noteq> - 1"
  shows "let s' = updateStats s userId won stake now; n = totalMatchesOf s' userId
         in winsOf s' userId = winsOf s userId + (if won then 1 else 0) \<and>
            lossesOf s' userId = lossesOf s userId + (if won then 0 else 1) \<and>
            n = totalMatchesOf s userId + 1 \<and>
            n \<noteq> 0 \<and>
            winRateOf s' userId = (winsOf s' userId / n) * 100 \<and>
            avgStakeOf s' userId = (avgStakeOf s userId * (n - 1) + stake) / n"
  using assms
  by (auto simp: updateStats_def Let_def winsOf_def lossesOf_def totalMatchesOf_def winRateOf_def
        avgStakeOf_def update_conv' split: option.splits)

text \<open>
  C6. The claim: \<open>updateStats\<close> raises the counters and recomputes the stats so that
  \<open>winRate = wins / totalMatches\<close> and the average stake is the running mean.

  The code, at Alice's first match, a win with stake 40: the counters and the average
  stake are as claimed (\<open>wins\<close> 1, \<open>losses\<close> 0, \<open>totalMatches\<close> 1, average 40), but the
  stored win rate is 100 where \<open>wins / totalMatches\<close> is 1. \<open>calculateRank\<close> of the
  same store, which weighs the win rate by 0.6 against a hundredth of the average stake
  by 0.4 and scales the sum by 100, then yields 6016; with the win rate 1 of the claim it
  would be 76.
\<close>

theorem updateStats_stores_percentage:
  "winsOf (updateStats ex_users ''alice'' True 40 6) ''alice'' = 1 \<and>
   lossesOf (updateStats ex_users ''alice'' True 40 6) ''alice'' = 0 \<and>
   totalMatchesOf (updateStats ex_users ''alice'' True 40 6) ''alice'' = 1 \<and>
   avgStakeOf (updateStats ex_users ''alice'' True 40 6) ''alice'' = 40 \<and>
   winRateOf (updateStats ex_users ''alice'' True 40 6) ''alice'' = 100 \<and>
   winRateOf (updateStats ex_users ''alice'' True 40 6) ''alice''
     \<noteq> winsOf (updateStats ex_users ''alice'' True 40 6) ''alice''
        / totalMatchesOf (updateStats ex_users ''alice'' True 40 6) ''alice'' \<and>
   calculateRank (updateStats ex_users ''alice'' True 40 6) ''alice'' = 6016"
  by (simp add: winRateOf_def winsOf_def lossesOf_def totalMatchesOf_def avgStakeOf_def
        calculateRank_def ex_defs act_defs)

section \<open>Match coordinator: forfeit\<close>

text \<open>
  C9 as stated lets a pending match be forfeited. In the scenario, after \<open>createMatch\<close>
  the match \<open>m1\<close> exists and is pending; \<open>forfeitMatch\<close> throws \<open>Match not found\<close>.
\<close>

theorem forfeitMatch_pending_counterexample:
  "pendingMatches (gameStore ex_world_created) ''m1'' \<noteq> None \<and>
   forfeitMatch ex_world_created ''m1'' ''alice'' ''t9'' 9 = Inl ''Match not found''"
  by (simp add: ex_defs act_defs)

text \<open>
  C9, amended. \<open>forfeitMatch\<close> fails with \<open>Match not found\<close> exactly when no match with
  that id is in \<open>activeMatches\<close> (a pending match is not). For an active match of two
  distinct players, forfeited by one of them, it succeeds: the match leaves the active
  matches and is stored in the history as completed, its winner the other player.
\<close>

theorem forfeitMatch_active:
  "(forfeitMatch w matchId forfeitingPlayerId transactionId now = Inl ''Match not found'')
     = (activeMatches (gameStore w) matchId = None) \<and>
   (\<forall>m. activeMatches (gameStore w) matchId = Some m \<longrightarrow>
        player1Id m \<noteq> player2Id m \<longrightarrow>
        (forfeitingPlayerId = player1Id m \<or> forfeitingPlayerId = player2Id m) \<longrightarrow>
        (\<exists>w'. forfeitMatch w matchId forfeitingPlayerId transactionId now = Inr w' \<and>
           activeMatches (gameStore w') matchId = None \<and>
           matchHistory (gameStore w') matchId
             = Some (m\<lparr>status := ''completed'',
                      winner := (if forfeitingPlayerId = player1Id m then player2Id m
                                 else player1Id m),
                      endedAt := now\<rparr>) \<and>
           map_option winner (matchHistory (gameStore w') matchId) \<noteq> Some forfeitingPlayerId))"
  by (auto simp: forfeitMatch_def endMatch_def split: option.splits)

theorem forfeitMatch_active_witness:
  "activeMatches (gameStore ex_world_joined) ''m1''
     = Some (ex_matchData\<lparr>m_id := ''m1'', status := ''active'', player2Id := ''bob'', startedAt := 4\<rparr>) \<and>
   (\<exists>w'. forfeitMatch ex_world_joined ''m1'' ''bob'' ''t5'' 5 = Inr w' \<and>
      activeMatches (gameStore w') ''m1'' = None \<and>
      map_option status (matchHistory (gameStore w') ''m1'') = Some ''completed'' \<and>
      map_option winner (matchHistory (gameStore w') ''m1'') = Some ''alice'')"
proof -
  let ?m = "ex_matchData\<lparr>m_id := ''m1'', status := ''active'', player2Id := ''bob'', startedAt := 4\<rparr>"
  have a: "activeMatches (gameStore ex_world_joined) ''m1'' = Some ?m"
    by (simp add: ex_defs act_defs)
  have p: "player1Id ?m = ''alice''" "player2Id ?m = ''bob''"
    by (simp_all add: ex_matchData_def)
  from forfeitMatch_active [of ex_world_joined "''m1''" "''bob''" "''t5''" 5] a p
  obtain w' where
    "forfeitMatch ex_world_joined ''m1'' ''bob'' ''t5'' 5 = Inr w'"
    "activeMatches (gameStore w') ''m1'' = None"
    "matchHistory (gameStore w') ''m1''
       = Some (?m\<lparr>status := ''completed'', winner := ''alice'', endedAt := 5\<rparr>)"
    by auto
  with a show ?thesis by auto
qed

section \<open>Leaderboard\<close>

text \<open>
  Ranks are positions; assigning them changes neither the users nor the win rates of the
  entries; the sort is descending in the win rate and keeps entries of equal win rate in
  their order.
\<close>

lemma rank_of_index:
  "map (\<lambda>(index, entry). lb_rank (entry\<lparr>lb_rank := of_nat index + 1\<rparr>)) ies
     = map (\<lambda>i. of_nat i + 1) (map fst ies)"
  by (induction ies) auto

lemma rank_enumerate:
  "map (\<lambda>(index, entry). lb_rank (entry\<lparr>lb_rank := of_nat index + 1\<rparr>)) (enumerate n es)
     = map (\<lambda>i. of_nat i + 1) [n..<n + length es]"
  by (simp only: rank_of_index map_fst_enumerate)

lemma assign_ranks_rank:
  "map lb_rank (assign_ranks es) = map (\<lambda>i. of_nat i + 1) [0..<length es]"
  using rank_enumerate [of 0 es]
  by (simp add: assign_ranks_def comp_def split_def)

lemma assign_ranks_keeps_rates: "entry_rates (assign_ranks es) = entry_rates es"
proof -
  have "map ((\<lambda>e. (lb_userId e, lb_winRate e)) \<circ> (\<lambda>(index, entry). entry\<lparr>lb_rank := of_nat index + 1\<rparr>))
          (enumerate 0 es) = map ((\<lambda>e. (lb_userId e, lb_winRate e)) \<circ> snd) (enumerate 0 es)"
    by (rule map_cong) auto
  then show ?thesis
    by (simp add: entry_rates_def assign_ranks_def flip: map_map)
qed

lemma entry_rates_leaderboard_entries: "entry_rates (leaderboard_entries s) = user_rates s"
  by (simp add: entry_rates_def leaderboard_entries_def user_rates_def winRateOf_def split_def)

lemma entry_rates_winRate: "map snd (entry_rates es) = map lb_winRate es"
  by (simp add: entry_rates_def)

lemma sorted_desc:
  "sorted_wrt (\<lambda>x y. y \<le> x) (map lb_winRate (sort_key (\<lambda>e. - lb_winRate e) es))"
proof -
  have "sorted (map (\<lambda>e. - lb_winRate e) (sort_key (\<lambda>e. - lb_winRate e) es))"
    by (rule sorted_sort_key)
  then show ?thesis
    by (simp add: sorted_wrt_map)
qed

lemma stable_rates:
  "filter (\<lambda>p. snd p = k) (entry_rates (sort_key (\<lambda>e. - lb_winRate e) es))
     = filter (\<lambda>p. snd p = k) (entry_rates es)"
proof -
  have "filter (\<lambda>e. - lb_winRate e = - k) (sort_key (\<lambda>e. - lb_winRate e) es)
          = filter (\<lambda>e. - lb_winRate e = - k) es"
    by (rule sort_key_stable)
  then show ?thesis
    by (simp add: entry_rates_def filter_map comp_def)
qed

text \<open>
  C7. When the cache is absent or expired, \<open>fetchLeaderboard\<close> lists all users sorted
  by win rate, descending, with a stable sort: the ranks are 1, 2, ... in list order, the
  win rates never increase along the list, and for every win rate the users having it
  appear in their insertion order. The result is stored as the cache, expiring five
  minutes later.
\<close>

theorem fetchLeaderboard_recomputes:
  assumes "\<not> cache_valid s now"
  shows "let lb = fst (fetchLeaderboard s now); s' = snd (fetchLeaderboard s now)
         in map lb_rank lb = map (\<lambda>i. of_nat i + 1) [0..<length (users s)] \<and>
            sorted_wrt (\<lambda>x y. y \<le> x) (map lb_winRate lb) \<and>
            (\<forall>k. filter (\<lambda>p. snd p = k) (entry_rates lb) = filter (\<lambda>p. snd p = k) (user_rates s)) \<and>
            cachedLeaderboard s' = Some lb \<and>
            cachedLeaderboardExpiry s' = Some (now + 5 * 60 * 1000)"
proof -
  have lb: "fst (fetchLeaderboard s now) = compute_leaderboard s"
    and s': "snd (fetchLeaderboard s now)
       = s\<lparr>cachedLeaderboard := Some (compute_leaderboard s),
            cachedLeaderboardExpiry := Some (now + LEADERBOARD_CACHE_DURATION)\<rparr>"
    using assms by (simp_all add: fetchLeaderboard_def Let_def)
  have rates: "entry_rates (compute_leaderboard s)
      = entry_rates (sort_key (\<lambda>e. - lb_winRate e) (leaderboard_entries s))"
    by (simp add: compute_leaderboard_def assign_ranks_keeps_rates)
  have 1: "map lb_rank (compute_leaderboard s) = map (\<lambda>i. of_nat i + 1) [0..<length (users s)]"
    by (simp add: compute_leaderboard_def assign_ranks_rank leaderboard_entries_def)
  have "map lb_winRate (compute_leaderboard s)
      = map lb_winRate (sort_key (\<lambda>e. - lb_winRate e) (leaderboard_entries s))"
    using rates by (simp flip: entry_rates_winRate)
  then have 2: "sorted_wrt (\<lambda>x y. y \<le> x) (map lb_winRate (compute_leaderboard s))"
    by (simp add: sorted_desc)
  have 3: "filter (\<lambda>p. snd p = k) (entry_rates (compute_leaderboard s))
      = filter (\<lambda>p. snd p = k) (user_rates s)" for k
    by (simp add: rates stable_rates entry_rates_leaderboard_entries)
  show ?thesis
    by (simp add: Let_def lb s' 1 2 3 LEADERBOARD_CACHE_DURATION_def)
qed

text \<open>
  The users A (0.8), B (0.8) and C (0.5), inserted in this order, are ranked A = 1,
  B = 2, C = 3.
\<close>

theorem fetchLeaderboard_recomputes_witness:
  "\<not> cache_valid ex_leaderboard_store 0 \<and>
   user_rates ex_leaderboard_store = [(''A'', 8 / 10), (''B'', 8 / 10), (''C'', 5 / 10)] \<and>
   fst (fetchLeaderboard ex_leaderboard_store 0)
     = [\<lparr>lb_userId = ''A'', lb_rank = 1, lb_winRate = 8 / 10\<rparr>,
        \<lparr>lb_userId = ''B'', lb_rank = 2, lb_winRate = 8 / 10\<rparr>,
        \<lparr>lb_userId = ''C'', lb_rank = 3, lb_winRate = 5 / 10\<rparr>] \<and>
   map lb_rank (fst (fetchLeaderboard ex_leaderboard_store 0)) = [1, 2, 3] \<and>
   cachedLeaderboardExpiry (snd (fetchLeaderboard ex_leaderboard_store 0)) = Some 300000"
proof -
  have c: "\<not> cache_valid ex_leaderboard_store 0"
    by (simp add: cache_valid_def ex_leaderboard_store_def initializeUser_def user_initialState_def)
  have u: "users ex_leaderboard_store
             = [(''A'', (ex_userData ''A'')\<lparr>u_id := ''A''\<rparr>), (''B'', (ex_userData ''B'')\<lparr>u_id := ''B''\<rparr>),
                (''C'', (ex_userData ''C'')\<lparr>u_id := ''C''\<rparr>)]"
    by (simp add: ex_leaderboard_store_def initializeUser_def user_initialState_def)
  have r: "user_rates ex_leaderboard_store = [(''A'', 8 / 10), (''B'', 8 / 10), (''C'', 5 / 10)]"
    by (simp add: user_rates_def winRateOf_def u) (simp add: ex_leaderboard_store_def)
  have f: "fst (fetchLeaderboard ex_leaderboard_store 0)
     = [\<lparr>lb_userId = ''A'', lb_rank = 1, lb_winRate = 8 / 10\<rparr>,
        \<lparr>lb_userId = ''B'', lb_rank = 2, lb_winRate = 8 / 10\<rparr>,
        \<lparr>lb_userId = ''C'', lb_rank = 3, lb_winRate = 5 / 10\<rparr>]"
    using c
    by (simp add: fetchLeaderboard_def compute_leaderboard_def leaderboard_entries_def
          assign_ranks_def u Let_def)
       (simp add: ex_leaderboard_store_def)
  have n: "[0..<length (users ex_leaderboard_store)] = [0, 1, 2]"
    by (simp add: u upt_rec)
  from fetchLeaderboard_recomputes [OF c] c r f n
  show ?thesis by (simp add: Let_def)
qed

text \<open>
  No action of the user store other than \<open>clearCache\<close> writes the cache or its expiry.
\<close>

lemma apply_user_op_keeps_cache:
  "op \<noteq> OpClearCache \<Longrightarrow>
   cachedLeaderboard (apply_user_op s op) = cachedLeaderboard s \<and>
   cachedLeaderboardExpiry (apply_user_op s op) = cachedLeaderboardExpiry s"
  by (cases op)
     (simp_all add: updateStats_def initializeUser_def addMatchToHistory_def setError_def Let_def
        split: option.splits)

lemma run_user_ops_keeps_cache:
  "OpClearCache \<notin> set ops \<Longrightarrow>
   cachedLeaderboard (run_user_ops s ops) = cachedLeaderboard s \<and>
   cachedLeaderboardExpiry (run_user_ops s ops) = cachedLeaderboardExpiry s"
  unfolding run_user_ops_def
proof (induction ops arbitrary: s)
  case Nil
  then show ?case by simp
next
  case (Cons op ops)
  then have "op \<noteq> OpClearCache" and "OpClearCache \<notin> set ops" by auto
  with Cons.IH [of "apply_user_op s op"] apply_user_op_keeps_cache [of op s]
  show ?case by simp
qed

lemma fetchLeaderboard_populates:
  "cachedLeaderboard (snd (fetchLeaderboard s t)) = Some (fst (fetchLeaderboard s t))"
  by (auto simp: fetchLeaderboard_def cache_valid_def Let_def split: option.splits)

text \<open>
  C8. Let a first call of \<open>fetchLeaderboard\<close> at \<open>t1\<close> leave a cache that expires at
  \<open>expiry\<close> (which is \<open>t1\<close> plus five minutes when this call populated the cache). After
  any actions of the user store other than \<open>clearCache\<close>, a second call at a time before
  \<open>expiry\<close> returns the cached snapshot, the same ordered list as the first call, and
  leaves the store as it is.
\<close>

theorem fetchLeaderboard_within_ttl:
  assumes "cachedLeaderboardExpiry (snd (fetchLeaderboard s t1)) = Some expiry"
    and "t2 < expiry"
    and "OpClearCache \<notin> set ops"
  shows "fetchLeaderboard (run_user_ops (snd (fetchLeaderboard s t1)) ops) t2
           = (fst (fetchLeaderboard s t1), run_user_ops (snd (fetchLeaderboard s t1)) ops) \<and>
         (\<not> cache_valid s t1 \<longrightarrow> expiry = t1 + 5 * 60 * 1000)"
proof -
  let ?s1 = "snd (fetchLeaderboard s t1)"
  let ?s2 = "run_user_ops ?s1 ops"
  have "cachedLeaderboard ?s2 = Some (fst (fetchLeaderboard s t1))"
    and "cachedLeaderboardExpiry ?s2 = Some expiry"
    using run_user_ops_keeps_cache [OF assms(3), of ?s1] assms(1)
    by (simp_all add: fetchLeaderboard_populates)
  then have "fetchLeaderboard ?s2 t2 = (fst (fetchLeaderboard s t1), ?s2)"
    using assms(2) by (simp add: fetchLeaderboard_def cache_valid_def)
  moreover have "\<not> cache_valid s t1 \<longrightarrow> expiry = t1 + 5 * 60 * 1000"
    using assms(1) by (auto simp: fetchLeaderboard_def Let_def LEADERBOARD_CACHE_DURATION_def)
  ultimately show ?thesis by simp
qed

text \<open>
  After the leaderboard of A, B, C is computed at time 0, user C wins a match, which
  raises C's win rate to 100; a call at 299999 ms still returns the list of the first call.
\<close>

theorem fetchLeaderboard_within_ttl_witness:
  "\<not> cache_valid ex_leaderboard_store 0 \<and>
   cachedLeaderboardExpiry (snd (fetchLeaderboard ex_leaderboard_store 0)) = Some 300000 \<and>
   winRateOf (run_user_ops (snd (fetchLeaderboard ex_leaderboard_store 0))
                [OpUpdateStats ''C'' True 40 1000]) ''C'' = 100 \<and>
   fst (fetchLeaderboard
          (run_user_ops (snd (fetchLeaderboard ex_leaderboard_store 0))
             [OpUpdateStats ''C'' True 40 1000]) 299999)
     = fst (fetchLeaderboard ex_leaderboard_store 0)"
proof -
  have c: "\<not> cache_valid ex_leaderboard_store 0"
    by (simp add: cache_valid_def ex_leaderboard_store_def initializeUser_def user_initialState_def)
  have e: "cachedLeaderboardExpiry (snd (fetchLeaderboard ex_leaderboard_store 0)) = Some 300000"
    using c by (simp add: fetchLeaderboard_def Let_def LEADERBOARD_CACHE_DURATION_def)
  have t: "(299999::int) < 300000"
    by simp
  have o: "OpClearCache \<notin> set [OpUpdateStats ''C'' True 40 1000]"
    by simp
  have r: "winRateOf (run_user_ops (snd (fetchLeaderboard ex_leaderboard_store 0))
                [OpUpdateStats ''C'' True 40 1000]) ''C'' = 100"
    using c
    by (simp add: run_user_ops_def fetchLeaderboard_def Let_def winRateOf_def updateStats_def
          ex_leaderboard_store_def initializeUser_def user_initialState_def ex_userData_def)
  from fetchLeaderboard_within_ttl [OF e t o] c e r
  show ?thesis by simp
qed

end
